theory Spec2Isabelle
  imports Main
begin

section \<open>The authenticated HTTP client of \<^verbatim>\<open>api-client.ts\<close>\<close>

text \<open>
  The client is an axios instance with a request interceptor that attaches the stored
  access token, and a response interceptor that, on a 401 answer, refreshes the tokens
  and replays the request once. Everything the TypeScript does beyond returning a value
  is explicit here: the key-value storage, the calls made to the logger, the requests
  handed to the transport and the token exchanges posted are fields of a \<open>world\<close> that
  every function takes and returns; a thrown JavaScript error is the \<open>Inl\<close> of a sum; a
  settled promise is a value of \<open>settled\<close>.

  Left out, because they pass everything through: the two logging interceptors of
  axios-logger, registered before the client's own, and the rejection handler of the
  request interceptor, which no earlier interceptor can reach. What the libraries do is
  taken from their documented behaviour: axios rejects a response whose status is outside
  2xx, keeps the \<^verbatim>\<open>_retry\<close> property when a configuration is passed to the client
  again, and runs the request interceptors on every call of the client.
\<close>

subsection \<open>The key-value storage \<^verbatim>\<open>apiTokenLocalStorage\<close>\<close>

text \<open>
  An MMKV instance holding strings under string keys. A JavaScript value that is either a
  string or \<^verbatim>\<open>undefined\<close> is a \<open>string option\<close>.
\<close>

type_synonym mmkv = "string \<rightharpoonup> string"

datatype js_error = JsError string

definition mmkv_getString :: "string \<Rightarrow> mmkv \<Rightarrow> string option" where
  "mmkv_getString key st = st key"

text \<open>
  \<^verbatim>\<open>set(key, value)\<close> of react-native-mmkv stores a boolean, a number, a string or a
  buffer; its native side throws on any other value, \<^verbatim>\<open>undefined\<close> included.
\<close>

definition mmkv_set :: "string \<Rightarrow> string option \<Rightarrow> mmkv \<Rightarrow> js_error + mmkv" where
  "mmkv_set key v st =
     (case v of
        None \<Rightarrow> Inl (JsError ''MMKV::set: value is not of type bool, number, string or buffer'')
      | Some s \<Rightarrow> Inr (st(key \<mapsto> s)))"

definition mmkv_delete :: "string \<Rightarrow> mmkv \<Rightarrow> mmkv" where
  "mmkv_delete key st = st(key := None)"

text \<open>JavaScript truthiness of a value that is a string or \<^verbatim>\<open>undefined\<close>/\<^verbatim>\<open>null\<close>.\<close>

definition truthy :: "string option \<Rightarrow> bool" where
  "truthy v = (case v of None \<Rightarrow> False | Some s \<Rightarrow> s \<noteq> [])"

subsection \<open>Requests, outcomes and the world\<close>

text \<open>
  The axios request configuration (\<open>http_method\<close> is its \<^verbatim>\<open>method\<close>); \<open>retry\<close> is the \<^verbatim>\<open>_retry\<close> property the response
  interceptor adds to it.
\<close>

record config =
  http_method :: string
  url :: string
  headers :: "(string \<rightharpoonup> string) option"
  data :: "string option"
  retry :: bool

record response =
  status :: nat
  payload :: string

text \<open>
  What the transport delivers for one request: a response with a success status, or an
  axios error, which has a \<^verbatim>\<open>message\<close> and either a response (status and the
  \<^verbatim>\<open>message\<close> field of its body, when there is one), or only the request (nothing came
  back), or neither (the request could not be set up).
\<close>

datatype outcome =
    Fulfilled response
  | ErrResponse nat "string option" string
  | ErrNoResponse string
  | ErrSetup string

text \<open>
  What \<^verbatim>\<open>axios.post(ENDPOINTS.REFRESH_TOKEN_PATH, {refreshToken})\<close> delivers: a response
  whose body has the fields \<^verbatim>\<open>accessToken\<close> and \<^verbatim>\<open>refresh_token\<close> (each possibly
  missing), or a rejection (network error or a status outside 2xx) with its message.
\<close>

datatype exchange_reply =
    ExchangeOk "string option" "string option"
  | ExchangeFailed string

datatype settled = Resolved response | Rejected string

datatype level = Info | Warn | Error | Debug

type_synonym log_entry = "level \<times> string \<times> string"

text \<open>
  The world: the storage, the calls made to the logger, the requests the client has
  handed to its transport (after the request interceptor), and the refresh tokens posted
  to the token endpoint, each in the order of the calls.
\<close>

record world =
  storage :: mmkv
  logged :: "log_entry list"
  transport_calls :: "config list"
  exchange_calls :: "string list"

text \<open>A call of \<^verbatim>\<open>logger.error\<close> or \<^verbatim>\<open>logger.debug\<close> with its message and its second argument.\<close>

definition logger_error :: "string \<Rightarrow> string \<Rightarrow> world \<Rightarrow> world" where
  "logger_error msg detail w = w\<lparr>logged := logged w @ [(Error, msg, detail)]\<rparr>"

definition logger_debug :: "string \<Rightarrow> string \<Rightarrow> world \<Rightarrow> world" where
  "logger_debug msg detail w = w\<lparr>logged := logged w @ [(Debug, msg, detail)]\<rparr>"



subsection \<open>Request interceptor\<close>

text \<open>
  \<^verbatim>\<open>
  config => {
    const accessToken = apiTokenLocalStorage.getString('access_token');
    if (accessToken && config.headers) {
      config.headers.Authorization = `Bearer ${accessToken}`;
    }
    return config;
  }
  \<close>
\<close>

definition requestInterceptor :: "mmkv \<Rightarrow> config \<Rightarrow> config" where
  "requestInterceptor st config =
     (let accessToken = mmkv_getString ''access_token'' st in
      if truthy accessToken \<and> headers config \<noteq> None then
        (case (accessToken, headers config) of
           (Some tok, Some h) \<Rightarrow>
             config\<lparr>headers := Some (h(''Authorization'' \<mapsto> ''Bearer '' @ tok))\<rparr>
         | _ \<Rightarrow> config)
      else config)"

subsection \<open>Logout and the global error handler\<close>

text \<open>
  \<^verbatim>\<open>handleLogout\<close> deletes both keys and calls \<^verbatim>\<open>logger.debug\<close>; its \<^verbatim>\<open>catch\<close> is
  not reached, since neither of the two steps throws.
\<close>

definition logout_entry :: log_entry where
  "logout_entry = (Debug, ''Logout successful and data cleared.'', [])"

definition handleLogout :: "world \<Rightarrow> world" where
  "handleLogout w =
     logger_debug ''Logout successful and data cleared.'' []
       (w\<lparr>storage := mmkv_delete ''refresh_token'' (mmkv_delete ''access_token'' (storage w))\<rparr>)"

text \<open>
  \<^verbatim>\<open>handleApiError\<close>: \<^verbatim>\<open>data?.message || 'An unexpected error occurred.'\<close>, then a
  switch on the status.
\<close>

definition handleApiError :: "nat \<Rightarrow> string option \<Rightarrow> world \<Rightarrow> world" where
  "handleApiError st data_message w =
     (let errorMessage =
            (case data_message of
               None \<Rightarrow> ''An unexpected error occurred.''
             | Some m \<Rightarrow> if m = [] then ''An unexpected error occurred.'' else m) in
      if st = 400 then logger_error ''Bad Request: '' errorMessage w
      else if st = 401 then
        handleLogout (logger_error ''Unauthorized: Please log in again.'' [] w)
      else if st = 403 then
        logger_error ''Forbidden: You do not have access to this resource.'' [] w
      else if st = 404 then
        logger_error ''Not Found: The requested resource could not be found.'' [] w
      else if st = 500 then
        logger_error ''Server Error: An internal server error occurred.'' [] w
      else logger_error ''Default Error: '' errorMessage w)"

subsection \<open>Token refresh\<close>

text \<open>
  \<^verbatim>\<open>refreshTokens\<close> is a \<^verbatim>\<open>try\<close> block with one \<^verbatim>\<open>await\<close> in it, and a
  \<^verbatim>\<open>catch\<close>. The part of the \<^verbatim>\<open>try\<close> before the \<^verbatim>\<open>await\<close> reads the refresh
  token and either throws or has a token to post; the part after it runs on the reply.
\<close>

definition refreshTokens_begin :: "world \<Rightarrow> js_error + string" where
  "refreshTokens_begin w =
     (let refreshToken = mmkv_getString ''refresh_token'' (storage w) in
      case refreshToken of
        None \<Rightarrow> Inl (JsError ''No refresh token available.'')
      | Some rt \<Rightarrow>
          if \<not> truthy refreshToken then Inl (JsError ''No refresh token available.'')
          else Inr rt)"

definition refreshTokens_resume ::
    "exchange_reply \<Rightarrow> world \<Rightarrow> (js_error + string option) \<times> world" where
  "refreshTokens_resume reply w =
     (case reply of
        ExchangeFailed m \<Rightarrow> (Inl (JsError m), w)
      | ExchangeOk accessToken newRefreshToken \<Rightarrow>
          (case mmkv_set ''refresh_token'' newRefreshToken (storage w) of
             Inl e \<Rightarrow> (Inl e, w)
           | Inr s1 \<Rightarrow>
               (case mmkv_set ''access_token'' accessToken s1 of
                  Inl e \<Rightarrow> (Inl e, w\<lparr>storage := s1\<rparr>)
                | Inr s2 \<Rightarrow> (Inr accessToken, w\<lparr>storage := s2\<rparr>))))"

text \<open>The \<^verbatim>\<open>catch\<close>: delete both keys, log the error, return \<^verbatim>\<open>null\<close>.\<close>

definition refreshTokens_catch :: "js_error \<Rightarrow> world \<Rightarrow> string option \<times> world" where
  "refreshTokens_catch e w =
     (case e of JsError m \<Rightarrow>
        (None,
         logger_error ''Token Refresh Error:'' m
           (w\<lparr>storage :=
                mmkv_delete ''refresh_token'' (mmkv_delete ''access_token'' (storage w))\<rparr>)))"

text \<open>
  The whole function, run against a token endpoint \<open>exchange\<close> that answers a posted
  refresh token. The post goes through the global \<^verbatim>\<open>axios\<close>, not through
  \<^verbatim>\<open>apiClient\<close>: no interceptor of the client sees it.
\<close>

definition refreshTokens ::
    "(string \<Rightarrow> exchange_reply) \<Rightarrow> world \<Rightarrow> string option \<times> world" where
  "refreshTokens exchange w =
     (case refreshTokens_begin w of
        Inl e \<Rightarrow> refreshTokens_catch e w
      | Inr rt \<Rightarrow>
          (let w1 = w\<lparr>exchange_calls := exchange_calls w @ [rt]\<rparr> in
           case refreshTokens_resume (exchange rt) w1 of
             (Inl e, w2) \<Rightarrow> refreshTokens_catch e w2
           | (Inr tok, w2) \<Rightarrow> (tok, w2)))"

subsection \<open>Response interceptor and the client\<close>

text \<open>
  What the rejection handler of the response interceptor does once \<^verbatim>\<open>refreshTokens\<close>
  has returned: with a truthy token it sets the header on \<^verbatim>\<open>error.config\<close> and calls
  \<^verbatim>\<open>apiClient(originalRequest)\<close>; otherwise it logs out and rejects with the message of
  the original error. Setting a property on missing headers is a TypeError, which
  rejects the handler's promise.
\<close>

datatype next_step = Retry config | Settle settled

definition afterRefresh :: "string \<Rightarrow> config \<Rightarrow> string option \<Rightarrow> world \<Rightarrow> next_step \<times> world" where
  "afterRefresh message originalRequest newAccessToken w =
     (if truthy newAccessToken then
        (case (newAccessToken, headers originalRequest) of
           (Some tok, Some h) \<Rightarrow>
             (Retry (originalRequest\<lparr>headers := Some (h(''Authorization'' \<mapsto> ''Bearer '' @ tok))\<rparr>), w)
         | _ \<Rightarrow> (Settle (Rejected ''TypeError: Cannot set properties of undefined''), w))
      else (Settle (Rejected message), handleLogout w))"

text \<open>
  One call of \<^verbatim>\<open>apiClient(config)\<close> run to completion against a transport \<open>net\<close> and a
  token endpoint \<open>exchange\<close>: request interceptor, transport, response interceptor. The
  replay is the recursive call; it ends because the replayed request carries
  \<^verbatim>\<open>_retry = true\<close>.
\<close>

function apiClient ::
    "(config \<Rightarrow> outcome) \<Rightarrow> (string \<Rightarrow> exchange_reply) \<Rightarrow> config \<Rightarrow> world \<Rightarrow> settled \<times> world" where
  "apiClient net exchange config w =
     (let sent = requestInterceptor (storage w) config;
          w1 = w\<lparr>transport_calls := transport_calls w @ [sent]\<rparr> in
      case net sent of
        Fulfilled r \<Rightarrow> (Resolved r, w1)
      | ErrResponse st data_message message \<Rightarrow>
          if st = 401 \<and> \<not> retry sent then
            (case refreshTokens exchange w1 of
               (newAccessToken, w2) \<Rightarrow>
                 (case afterRefresh message (sent\<lparr>retry := True\<rparr>) newAccessToken w2 of
                    (Retry again, w3) \<Rightarrow> apiClient net exchange again w3
                  | (Settle r, w3) \<Rightarrow> (r, w3)))
          else (Rejected message, handleApiError st data_message w1)
      | ErrNoResponse message \<Rightarrow>
          (Rejected message,
           logger_error ''Network Error: Please check your internet connection.'' []
             (logger_error ''No Response from Server: '' ''[request]'' w1))
      | ErrSetup message \<Rightarrow>
          (Rejected message,
           logger_error ''Error: An unexpected error occurred.'' []
             (logger_error ''Request Setup Error: '' message w1)))"
  by pat_completeness auto
termination
  by (relation "measure (\<lambda>(net, exchange, config, w). if retry config then 0 else 1)")
     (auto simp: requestInterceptor_def afterRefresh_def Let_def
           split: if_splits option.splits prod.splits)

declare apiClient.simps [simp del]


subsection \<open>Several calls in flight\<close>

text \<open>
  JavaScript runs one continuation at a time, and a call gives up control only where it
  awaits: the transport, or the token endpoint. So several calls of \<^verbatim>\<open>apiClient\<close> in
  flight are a list of calls, each in one of four phases, over one shared world; an event
  picks a call and runs its next continuation to the next \<^verbatim>\<open>await\<close>. The handlers
  below are the pieces of the client between two awaits.
\<close>

datatype phase =
    Queued config
  | InFlight config
  | Refreshing config string
  | Done settled

datatype event =
    Dispatch nat
  | Reply nat outcome
  | ExchangeReply nat exchange_reply

type_synonym system = "world \<times> phase list"

definition proceed :: "next_step \<times> world \<Rightarrow> phase \<times> world" where
  "proceed x = (case x of (Retry again, w) \<Rightarrow> (Queued again, w) | (Settle r, w) \<Rightarrow> (Done r, w))"

text \<open>\<^verbatim>\<open>apiClient(config)\<close> up to the transport: the request interceptor runs, the request leaves.\<close>

definition onDispatch :: "config \<Rightarrow> world \<Rightarrow> phase \<times> world" where
  "onDispatch config w =
     (let sent = requestInterceptor (storage w) config in
      (InFlight sent, w\<lparr>transport_calls := transport_calls w @ [sent]\<rparr>))"

text \<open>
  The response interceptor on the transport's answer, up to the \<^verbatim>\<open>await\<close> inside
  \<^verbatim>\<open>refreshTokens\<close> (or to the end, when there is no post to wait for).
\<close>

definition onReply :: "outcome \<Rightarrow> config \<Rightarrow> world \<Rightarrow> phase \<times> world" where
  "onReply out sent w =
     (case out of
        Fulfilled r \<Rightarrow> (Done (Resolved r), w)
      | ErrResponse st data_message message \<Rightarrow>
          if st = 401 \<and> \<not> retry sent then
            (case refreshTokens_begin w of
               Inl e \<Rightarrow>
                 (case refreshTokens_catch e w of
                    (newAccessToken, w2) \<Rightarrow>
                      proceed (afterRefresh message (sent\<lparr>retry := True\<rparr>) newAccessToken w2))
             | Inr rt \<Rightarrow>
                 (Refreshing (sent\<lparr>retry := True\<rparr>) message,
                  w\<lparr>exchange_calls := exchange_calls w @ [rt]\<rparr>))
          else (Done (Rejected message), handleApiError st data_message w)
      | ErrNoResponse message \<Rightarrow>
          (Done (Rejected message),
           logger_error ''Network Error: Please check your internet connection.'' []
             (logger_error ''No Response from Server: '' ''[request]'' w))
      | ErrSetup message \<Rightarrow>
          (Done (Rejected message),
           logger_error ''Error: An unexpected error occurred.'' []
             (logger_error ''Request Setup Error: '' message w)))"

text \<open>The rest of \<^verbatim>\<open>refreshTokens\<close> and of the response interceptor, on the endpoint's answer.\<close>

definition onExchangeReply :: "exchange_reply \<Rightarrow> config \<Rightarrow> string \<Rightarrow> world \<Rightarrow> phase \<times> world" where
  "onExchangeReply reply originalRequest message w =
     (case refreshTokens_resume reply w of
        (Inl e, w2) \<Rightarrow>
          (case refreshTokens_catch e w2 of
             (newAccessToken, w3) \<Rightarrow>
               proceed (afterRefresh message originalRequest newAccessToken w3))
      | (Inr newAccessToken, w2) \<Rightarrow>
          proceed (afterRefresh message originalRequest newAccessToken w2))"

text \<open>An event for a call that is not in the matching phase changes nothing.\<close>

fun step :: "event \<Rightarrow> system \<Rightarrow> system" where
  "step (Dispatch i) (w, ps) =
     (if i < length ps then
        (case ps ! i of
           Queued config \<Rightarrow> (case onDispatch config w of (p, w') \<Rightarrow> (w', ps[i := p]))
         | _ \<Rightarrow> (w, ps))
      else (w, ps))"
| "step (Reply i out) (w, ps) =
     (if i < length ps then
        (case ps ! i of
           InFlight sent \<Rightarrow> (case onReply out sent w of (p, w') \<Rightarrow> (w', ps[i := p]))
         | _ \<Rightarrow> (w, ps))
      else (w, ps))"
| "step (ExchangeReply i reply) (w, ps) =
     (if i < length ps then
        (case ps ! i of
           Refreshing originalRequest message \<Rightarrow>
             (case onExchangeReply reply originalRequest message w of
                (p, w') \<Rightarrow> (w', ps[i := p]))
         | _ \<Rightarrow> (w, ps))
      else (w, ps))"

fun run :: "event list \<Rightarrow> system \<Rightarrow> system" where
  "run [] s = s"
| "run (e # es) s = run es (step e s)"

subsection \<open>Observations and sample inputs\<close>

text \<open>The value of one header of a request, \<^verbatim>\<open>config.headers?.[k]\<close>.\<close>

definition header_of :: "config \<Rightarrow> string \<Rightarrow> string option" where
  "header_of c k = (case headers c of None \<Rightarrow> None | Some h \<Rightarrow> h k)"

definition authorization_of :: "config \<Rightarrow> string option" where
  "authorization_of c = header_of c ''Authorization''"

text \<open>A call that has been sent once and not replayed.\<close>

fun awaiting_first_reply :: "phase \<Rightarrow> bool" where
  "awaiting_first_reply (InFlight c) = (\<not> retry c)"
| "awaiting_first_reply _ = False"

fun config_of :: "phase \<Rightarrow> config option" where
  "config_of (Queued c) = Some c"
| "config_of (InFlight c) = Some c"
| "config_of (Refreshing c m) = Some c"
| "config_of (Done r) = None"

definition example_config :: config where
  "example_config =
     \<lparr>http_method = ''GET'', url = ''/products/7'',
      headers = Some [''Content-Type'' \<mapsto> ''application/json''],
      data = None, retry = False\<rparr>"

definition example_world :: world where
  "example_world =
     \<lparr>storage = [''access_token'' \<mapsto> ''A0'', ''refresh_token'' \<mapsto> ''R0''],
      logged = [], transport_calls = [], exchange_calls = []\<rparr>"

definition unauthorized :: outcome where
  "unauthorized = ErrResponse 401 None ''Request failed with status code 401''"

definition always_unauthorized :: "config \<Rightarrow> outcome" where
  "always_unauthorized c = unauthorized"

definition rotating_endpoint :: "string \<Rightarrow> exchange_reply" where
  "rotating_endpoint rt = ExchangeOk (Some ''A1'') (Some ''R1'')"

definition unrotating_endpoint :: "string \<Rightarrow> exchange_reply" where
  "unrotating_endpoint rt = ExchangeOk (Some ''A1'') None"

text \<open>
  One call alone, driven by a transport and a token endpoint: each turn delivers what the
  call is waiting for. The endpoint answers the refresh token posted last (a call that
  is refreshing has posted one).
\<close>

definition drive :: "(config \<Rightarrow> outcome) \<Rightarrow> (string \<Rightarrow> exchange_reply) \<Rightarrow> system \<Rightarrow> system" where
  "drive net exchange s =
     (case s of (w, ps) \<Rightarrow>
        (case ps of
           [] \<Rightarrow> s
         | p # _ \<Rightarrow>
             (case p of
                Queued c \<Rightarrow> step (Dispatch 0) s
              | InFlight sent \<Rightarrow> step (Reply 0 (net sent)) s
              | Refreshing orig m \<Rightarrow> step (ExchangeReply 0 (exchange (last (exchange_calls w)))) s
              | Done r \<Rightarrow> s)))"

text \<open>Schedules: every listed call gets a 401; every listed call is refreshed and replayed.\<close>

definition all_unauthorized :: "(nat \<Rightarrow> string option) \<Rightarrow> (nat \<Rightarrow> string) \<Rightarrow> nat list \<Rightarrow> event list" where
  "all_unauthorized d m is = map (\<lambda>i. Reply i (ErrResponse 401 (d i) (m i))) is"

definition all_refreshed :: "(nat \<Rightarrow> string) \<Rightarrow> (nat \<Rightarrow> string) \<Rightarrow> nat list \<Rightarrow> event list" where
  "all_refreshed a r is =
     concat (map (\<lambda>i. [ExchangeReply i (ExchangeOk (Some (a i)) (Some (r i))), Dispatch i]) is)"

fun has_headers :: "phase \<Rightarrow> bool" where
  "has_headers p = (case config_of p of None \<Rightarrow> False | Some c \<Rightarrow> headers c \<noteq> None)"

fun refreshing :: "phase \<Rightarrow> bool" where
  "refreshing (Refreshing c m) = True"
| "refreshing _ = False"

text \<open>Two calls, and a schedule in which both get their 401 before either exchange answers.\<close>

definition two_calls :: system where
  "two_calls =
     (example_world, [Queued example_config, Queued (example_config\<lparr>url := ''/products/8''\<rparr>)])"

definition two_401_schedule :: "event list" where
  "two_401_schedule =
     [Dispatch 0, Dispatch 1, Reply 0 unauthorized, Reply 1 unauthorized,
      ExchangeReply 0 (ExchangeOk (Some ''A1'') (Some ''R1'')), Dispatch 0,
      ExchangeReply 1 (ExchangeOk (Some ''A2'') (Some ''R2'')), Dispatch 1]"

definition two_in_flight :: system where
  "two_in_flight = run [Dispatch 0, Dispatch 1] two_calls"

definition fresh_access :: "nat \<Rightarrow> string" where
  "fresh_access i = (if i = 0 then ''A1'' else ''A2'')"

definition fresh_refresh :: "nat \<Rightarrow> string" where
  "fresh_refresh i = (if i = 0 then ''R1'' else ''R2'')"

lemmas client_defs = example_world_def example_config_def unauthorized_def
  always_unauthorized_def rotating_endpoint_def
  requestInterceptor_def refreshTokens_def
  refreshTokens_begin_def refreshTokens_resume_def refreshTokens_catch_def afterRefresh_def
  mmkv_getString_def mmkv_set_def mmkv_delete_def truthy_def header_of_def
  handleLogout_def handleApiError_def logger_error_def logger_debug_def logout_entry_def Let_def

lemmas machine_defs = two_calls_def two_401_schedule_def two_in_flight_def
  fresh_access_def fresh_refresh_def all_unauthorized_def all_refreshed_def
  onDispatch_def onReply_def onExchangeReply_def proceed_def

section \<open>Properties\<close>

subsection \<open>Auxiliary facts\<close>

lemma requestInterceptor_retry [simp]: "retry (requestInterceptor st c) = retry c"
  by (simp add: requestInterceptor_def Let_def split: option.splits)

lemma refreshTokens_begin_cases:
  "refreshTokens_begin w =
     (if truthy (storage w ''refresh_token'') then
        (case storage w ''refresh_token'' of Some rt \<Rightarrow> Inr rt | None \<Rightarrow> Inl (JsError ''No refresh token available.''))
      else Inl (JsError ''No refresh token available.''))"
  by (simp add: refreshTokens_begin_def mmkv_getString_def truthy_def Let_def split: option.splits)

lemma refreshTokens_catch_storage:
  "refreshTokens_catch e w = (r, w') \<Longrightarrow>
     r = None \<and> storage w' ''access_token'' = None \<and> storage w' ''refresh_token'' = None \<and>
     transport_calls w' = transport_calls w \<and> exchange_calls w' = exchange_calls w"
  by (cases e) (auto simp: refreshTokens_catch_def logger_error_def mmkv_delete_def)

lemma refreshTokens_resume_frame:
  "refreshTokens_resume reply w = (r, w') \<Longrightarrow>
     transport_calls w' = transport_calls w \<and> exchange_calls w' = exchange_calls w \<and>
     logged w' = logged w \<and> (\<forall>tok. r = Inr tok \<longrightarrow> tok \<noteq> None)"
  by (auto simp: refreshTokens_resume_def mmkv_set_def split: exchange_reply.splits option.splits)

lemma refreshTokens_calls:
  "refreshTokens exchange w = (r, w') \<Longrightarrow>
     transport_calls w' = transport_calls w \<and>
     exchange_calls w' =
       exchange_calls w @ (case refreshTokens_begin w of Inl e \<Rightarrow> [] | Inr rt \<Rightarrow> [rt])"
  by (auto simp: refreshTokens_def Let_def split: sum.splits prod.splits
           dest!: refreshTokens_catch_storage refreshTokens_resume_frame)

lemma refreshTokens_null:
  "refreshTokens exchange w = (None, w') \<Longrightarrow>
     storage w' ''access_token'' = None \<and> storage w' ''refresh_token'' = None"
  by (auto simp: refreshTokens_def Let_def split: sum.splits prod.splits
           dest!: refreshTokens_catch_storage refreshTokens_resume_frame)

lemma refreshTokens_Some:
  "refreshTokens exchange w = (Some tok, w') \<Longrightarrow>
     \<exists>rt. refreshTokens_begin w = Inr rt \<and> storage w' ''access_token'' = Some tok"
  by (auto simp: refreshTokens_def Let_def refreshTokens_resume_def mmkv_set_def
           split: sum.splits prod.splits exchange_reply.splits option.splits
           dest!: refreshTokens_catch_storage)

lemma handleApiError_frame:
  "transport_calls (handleApiError st d w) = transport_calls w \<and>
   exchange_calls (handleApiError st d w) = exchange_calls w"
  by (simp add: handleApiError_def handleLogout_def logger_error_def logger_debug_def Let_def)

lemma handleApiError_401:
  "handleApiError 401 d w =
     handleLogout (logger_error ''Unauthorized: Please log in again.'' [] w)"
  by (simp add: handleApiError_def Let_def)

lemma handleLogout_effect:
  "storage (handleLogout w) ''access_token'' = None \<and>
   storage (handleLogout w) ''refresh_token'' = None \<and>
   logged (handleLogout w) = logged w @ [logout_entry] \<and>
   transport_calls (handleLogout w) = transport_calls w \<and>
   exchange_calls (handleLogout w) = exchange_calls w"
  by (simp add: handleLogout_def logger_debug_def mmkv_delete_def logout_entry_def)

lemma afterRefresh_Retry:
  "afterRefresh m orig tok w = (Retry again, w') \<Longrightarrow>
     w' = w \<and> retry again = retry orig \<and> truthy tok"
  by (auto simp: afterRefresh_def handleLogout_def split: if_splits option.splits)

lemma afterRefresh_Settle:
  "afterRefresh m orig tok w = (Settle r, w') \<Longrightarrow>
     transport_calls w' = transport_calls w \<and> exchange_calls w' = exchange_calls w"
  by (auto simp: afterRefresh_def handleLogout_def logger_debug_def split: if_splits option.splits)

lemma catch_then_logout:
  "refreshTokens_catch (JsError em) w0 = (tok, w2) \<Longrightarrow>
   afterRefresh m orig tok w2 = (nxt, w3) \<Longrightarrow>
     nxt = Settle (Rejected m) \<and>
     storage w3 ''access_token'' = None \<and> storage w3 ''refresh_token'' = None \<and>
     transport_calls w3 = transport_calls w0 \<and> exchange_calls w3 = exchange_calls w0 \<and>
     logged w3 = logged w0 @ [(Error, ''Token Refresh Error:'', em), logout_entry]"
  by (auto simp: refreshTokens_catch_def afterRefresh_def truthy_def handleLogout_def
        logger_error_def logger_debug_def mmkv_delete_def logout_entry_def)

text \<open>A replayed request is not replayed again: the client is then a single attempt.\<close>

lemma apiClient_retried:
  "retry cfg \<Longrightarrow>
   apiClient net exchange cfg w =
     (let sent = requestInterceptor (storage w) cfg;
          w1 = w\<lparr>transport_calls := transport_calls w @ [sent]\<rparr> in
      case net sent of
        Fulfilled r \<Rightarrow> (Resolved r, w1)
      | ErrResponse st data_message message \<Rightarrow>
          (Rejected message, handleApiError st data_message w1)
      | ErrNoResponse message \<Rightarrow>
          (Rejected message,
           logger_error ''Network Error: Please check your internet connection.'' []
             (logger_error ''No Response from Server: '' ''[request]'' w1))
      | ErrSetup message \<Rightarrow>
          (Rejected message,
           logger_error ''Error: An unexpected error occurred.'' []
             (logger_error ''Request Setup Error: '' message w1)))"
  by (subst apiClient.simps) (simp add: Let_def split: outcome.splits)

lemma apiClient_retried_calls:
  assumes "retry cfg" and "apiClient net exchange cfg w = (res, w')"
  shows "transport_calls w' = transport_calls w @ [requestInterceptor (storage w) cfg] \<and>
         exchange_calls w' = exchange_calls w"
  using assms
  by (auto simp: apiClient_retried Let_def handleApiError_frame logger_error_def
           split: outcome.splits)

text \<open>A first attempt answered with 401 refreshes, then replays or settles.\<close>

lemma apiClient_first_401:
  assumes "net (requestInterceptor (storage w) cfg) = ErrResponse 401 d m" and "\<not> retry cfg"
  shows "apiClient net exchange cfg w =
     (case refreshTokens exchange
             (w\<lparr>transport_calls := transport_calls w @ [requestInterceptor (storage w) cfg]\<rparr>) of
        (newAccessToken, w2) \<Rightarrow>
          (case afterRefresh m ((requestInterceptor (storage w) cfg)\<lparr>retry := True\<rparr>)
                  newAccessToken w2 of
             (Retry again, w3) \<Rightarrow> apiClient net exchange again w3
           | (Settle r, w3) \<Rightarrow> (r, w3)))"
  using assms by (subst apiClient.simps) (simp add: Let_def)

text \<open>A call makes one or two requests and posts at most one exchange.\<close>

lemma apiClient_calls:
  assumes "apiClient net exchange cfg w = (res, w')"
  shows "\<exists>more. transport_calls w' = transport_calls w @ requestInterceptor (storage w) cfg # more \<and>
           length more \<le> 1 \<and>
           length (exchange_calls w') \<le> length (exchange_calls w) + 1 \<and>
           take (length (exchange_calls w)) (exchange_calls w') = exchange_calls w"
proof (cases "retry cfg")
  case True
  from apiClient_retried_calls [OF True assms] show ?thesis by simp
next
  case False
  let ?sent = "requestInterceptor (storage w) cfg"
  let ?w1 = "w\<lparr>transport_calls := transport_calls w @ [?sent]\<rparr>"
  show ?thesis
  proof (cases "net ?sent")
    case (Fulfilled r)
    with assms show ?thesis by (subst (asm) apiClient.simps) (auto simp: Let_def)
  next
    case (ErrNoResponse m)
    with assms show ?thesis
      by (subst (asm) apiClient.simps) (auto simp: Let_def logger_error_def)
  next
    case (ErrSetup m)
    with assms show ?thesis
      by (subst (asm) apiClient.simps) (auto simp: Let_def logger_error_def)
  next
    case (ErrResponse st d m)
    show ?thesis
    proof (cases "st = 401")
      case False
      with ErrResponse assms show ?thesis
        by (subst (asm) apiClient.simps) (auto simp: Let_def handleApiError_frame)
    next
      case True
      obtain tok w2 where rt: "refreshTokens exchange ?w1 = (tok, w2)"
        by (cases "refreshTokens exchange ?w1")
      obtain nxt w3 where ar: "afterRefresh m (?sent\<lparr>retry := True\<rparr>) tok w2 = (nxt, w3)"
        by (cases "afterRefresh m (?sent\<lparr>retry := True\<rparr>) tok w2")
      from refreshTokens_calls [OF rt]
      have c2: "transport_calls w2 = transport_calls w @ [?sent]"
        "length (exchange_calls w2) \<le> length (exchange_calls w) + 1"
        "take (length (exchange_calls w)) (exchange_calls w2) = exchange_calls w"
        by (auto split: sum.splits)
      show ?thesis
      proof (cases nxt)
        case (Settle r)
        with ErrResponse True False rt ar assms have "w' = w3"
          by (subst (asm) apiClient.simps) (simp add: Let_def)
        with afterRefresh_Settle [OF ar [unfolded Settle]] c2 show ?thesis by simp
      next
        case (Retry again)
        with ErrResponse True False rt ar assms
        have rec: "apiClient net exchange again w3 = (res, w')"
          by (subst (asm) apiClient.simps) (simp add: Let_def)
        from afterRefresh_Retry [OF ar [unfolded Retry]]
        have "w3 = w2" "retry again" by simp_all
        with apiClient_retried_calls [OF _ rec] c2 show ?thesis by simp
      qed
    qed
  qed
qed

subsection \<open>The machine and the client agree\<close>

text \<open>
  Driving one call through the machine, with the answers of a transport and an endpoint,
  ends after at most five turns in the result and the world of \<open>apiClient\<close>.
\<close>

lemma run_append: "run (xs @ ys) s = run ys (run xs s)"
  by (induction xs arbitrary: s) simp_all

lemma drive_Done [simp]: "drive net exchange (w, [Done r]) = (w, [Done r])"
  by (simp add: drive_def)

lemma drive_retried:
  assumes "retry cfg"
  shows "drive net exchange (drive net exchange (w, [Queued cfg])) =
    (case apiClient net exchange cfg w of (res, w') \<Rightarrow> (w', [Done res]))"
  using assms
  by (simp add: drive_def onDispatch_def onReply_def apiClient_retried Let_def
      split: outcome.splits)

lemma drive_agrees:
  "(drive net exchange ^^ 5) (w, [Queued cfg]) =
     (case apiClient net exchange cfg w of (res, w') \<Rightarrow> (w', [Done res]))"
proof (cases "retry cfg")
  case True
  have "(drive net exchange ^^ 5) (w, [Queued cfg]) =
      (drive net exchange ^^ 3) (drive net exchange (drive net exchange (w, [Queued cfg])))"
    by (simp add: numeral_eq_Suc funpow_swap1)
  then show ?thesis by (simp add: drive_retried [OF True] split: prod.splits add: numeral_eq_Suc)
next
  case False
  let ?sent = "requestInterceptor (storage w) cfg"
  let ?w1 = "w\<lparr>transport_calls := transport_calls w @ [?sent]\<rparr>"
  have d1: "drive net exchange (w, [Queued cfg]) = (?w1, [InFlight ?sent])"
    by (simp add: drive_def onDispatch_def Let_def)
  have five: "(drive net exchange ^^ 5) (w, [Queued cfg]) =
      (drive net exchange ^^ 4) (?w1, [InFlight ?sent])"
    using d1 by (simp add: numeral_eq_Suc funpow_swap1)
  show ?thesis
  proof (cases "\<exists>d m. net ?sent = ErrResponse 401 d m")
    case False
    then have "drive net exchange (?w1, [InFlight ?sent]) =
        (case apiClient net exchange cfg w of (res, w') \<Rightarrow> (w', [Done res]))"
      by (subst apiClient.simps)
         (auto simp: drive_def onReply_def Let_def split: outcome.splits)
    then show ?thesis unfolding five
      by (simp add: numeral_eq_Suc funpow_swap1 split: prod.splits)
  next
    case True
    then obtain d m where u: "net ?sent = ErrResponse 401 d m" by blast
    note ap = apiClient_first_401 [where net = net and w = w and cfg = cfg
      and exchange = exchange, OF u \<open>\<not> retry cfg\<close>]
    show ?thesis
    proof (cases "refreshTokens_begin ?w1")
      case (Inl e)
      then have "drive net exchange (?w1, [InFlight ?sent]) =
        (case apiClient net exchange cfg w of (res, w') \<Rightarrow> (w', [Done res]))"
        using u \<open>\<not> retry cfg\<close>
        apply (simp add: ap)
        apply (cases e)
        apply (simp add: drive_def onReply_def refreshTokens_def refreshTokens_catch_def
            afterRefresh_def truthy_def proceed_def)
        done
      then show ?thesis unfolding five
        by (simp add: numeral_eq_Suc funpow_swap1 split: prod.splits)
    next
      case (Inr rt)
      let ?w2 = "?w1\<lparr>exchange_calls := exchange_calls w @ [rt]\<rparr>"
      have d2: "drive net exchange (?w1, [InFlight ?sent]) =
          (?w2, [Refreshing (?sent\<lparr>retry := True\<rparr>) m])"
        using u \<open>\<not> retry cfg\<close> Inr by (simp add: drive_def onReply_def)
      obtain tok w3 where r: "refreshTokens exchange ?w1 = (tok, w3)"
        by (cases "refreshTokens exchange ?w1")
      obtain nxt w4 where a: "afterRefresh m (?sent\<lparr>retry := True\<rparr>) tok w3 = (nxt, w4)"
        by (cases "afterRefresh m (?sent\<lparr>retry := True\<rparr>) tok w3")
      have d3: "drive net exchange (?w2, [Refreshing (?sent\<lparr>retry := True\<rparr>) m]) =
          (case proceed (nxt, w4) of (p, w') \<Rightarrow> (w', [p]))"
        using r a Inr
        by (auto simp: drive_def onExchangeReply_def refreshTokens_def Let_def
              split: prod.splits sum.splits)
      have three: "(drive net exchange ^^ 5) (w, [Queued cfg]) =
          (drive net exchange ^^ 2) (case proceed (nxt, w4) of (p, w') \<Rightarrow> (w', [p]))"
        unfolding five using d2 d3 by (simp add: numeral_eq_Suc funpow_swap1)
      show ?thesis
      proof (cases nxt)
        case (Settle res)
        then show ?thesis unfolding three using ap r a
          by (simp add: proceed_def numeral_eq_Suc)
      next
        case (Retry again)
        from afterRefresh_Retry [OF a [unfolded Retry]] have "retry again" by simp
        from drive_retried [OF this, of net exchange w4] Retry
        show ?thesis unfolding three using ap r a
          by (simp add: proceed_def numeral_eq_Suc funpow_swap1)
      qed
    qed
  qed
qed

subsection \<open>Calls that get their 401 together\<close>

lemma step_reply_401:
  assumes "storage w ''refresh_token'' = Some rt" and "rt \<noteq> []"
    and "i < length ps" and "ps ! i = InFlight c" and "\<not> retry c"
  shows "step (Reply i (ErrResponse 401 d m)) (w, ps) =
           (w\<lparr>exchange_calls := exchange_calls w @ [rt]\<rparr>,
            ps[i := Refreshing (c\<lparr>retry := True\<rparr>) m])"
  using assms by (simp add: onReply_def refreshTokens_begin_cases truthy_def)

lemma all_unauthorized_run:
  assumes "storage w ''refresh_token'' = Some rt" and "rt \<noteq> []"
    and "distinct is"
    and "\<forall>i\<in>set is. i < length ps \<and> awaiting_first_reply (ps ! i)"
  shows "storage (fst (run (all_unauthorized d m is) (w, ps))) = storage w \<and>
         transport_calls (fst (run (all_unauthorized d m is) (w, ps))) = transport_calls w \<and>
         exchange_calls (fst (run (all_unauthorized d m is) (w, ps))) =
           exchange_calls w @ replicate (length is) rt \<and>
         length (snd (run (all_unauthorized d m is) (w, ps))) = length ps \<and>
         (\<forall>i\<in>set is. refreshing (snd (run (all_unauthorized d m is) (w, ps)) ! i) \<and>
            has_headers (snd (run (all_unauthorized d m is) (w, ps)) ! i) = has_headers (ps ! i)) \<and>
         (\<forall>j. j \<notin> set is \<longrightarrow> snd (run (all_unauthorized d m is) (w, ps)) ! j = ps ! j)"
  using assms
proof (induction "is" arbitrary: w ps)
  case Nil
  then show ?case by (simp add: all_unauthorized_def)
next
  case (Cons i "is")
  from Cons.prems obtain c where c: "i < length ps" "ps ! i = InFlight c" "\<not> retry c"
    by (cases "ps ! i") auto
  let ?w = "w\<lparr>exchange_calls := exchange_calls w @ [rt]\<rparr>"
  let ?ps = "ps[i := Refreshing (c\<lparr>retry := True\<rparr>) (m i)]"
  have st: "step (Reply i (ErrResponse 401 (d i) (m i))) (w, ps) = (?w, ?ps)"
    using step_reply_401 [OF Cons.prems(1,2) c] .
  have unf: "run (all_unauthorized d m (i # is)) (w, ps) = run (all_unauthorized d m is) (?w, ?ps)"
    using st by (simp add: all_unauthorized_def)
  have rest: "\<forall>j\<in>set is. j < length ?ps \<and> awaiting_first_reply (?ps ! j)"
    using Cons.prems(3,4) by (auto simp: nth_list_update)
  have ih: "storage (fst (run (all_unauthorized d m is) (?w, ?ps))) = storage ?w \<and>
         transport_calls (fst (run (all_unauthorized d m is) (?w, ?ps))) = transport_calls ?w \<and>
         exchange_calls (fst (run (all_unauthorized d m is) (?w, ?ps))) =
           exchange_calls ?w @ replicate (length is) rt \<and>
         length (snd (run (all_unauthorized d m is) (?w, ?ps))) = length ?ps \<and>
         (\<forall>i\<in>set is. refreshing (snd (run (all_unauthorized d m is) (?w, ?ps)) ! i) \<and>
            has_headers (snd (run (all_unauthorized d m is) (?w, ?ps)) ! i) = has_headers (?ps ! i)) \<and>
         (\<forall>j. j \<notin> set is \<longrightarrow> snd (run (all_unauthorized d m is) (?w, ?ps)) ! j = ?ps ! j)"
    using Cons.IH [of ?w ?ps] Cons.prems(1,2,3) rest by simp
  have i_notin: "i \<notin> set is" using Cons.prems(3) by simp
  from ih i_notin c show ?case
    unfolding unf by (auto simp: replicate_append_same nth_list_update)
qed

lemma step_refreshed:
  assumes "i < length ps" and "ps ! i = Refreshing orig msg" and "headers orig = Some h"
    and "a \<noteq> []"
  shows "run [ExchangeReply i (ExchangeOk (Some a) (Some r)), Dispatch i] (w, ps) =
           (w\<lparr>storage := (storage w)(''refresh_token'' \<mapsto> r, ''access_token'' \<mapsto> a),
              transport_calls := transport_calls w @
                [orig\<lparr>headers := Some (h(''Authorization'' \<mapsto> ''Bearer '' @ a))\<rparr>]\<rparr>,
            ps[i := InFlight (orig\<lparr>headers := Some (h(''Authorization'' \<mapsto> ''Bearer '' @ a))\<rparr>)])"
  using assms
  by (simp add: onExchangeReply_def refreshTokens_resume_def mmkv_set_def afterRefresh_def
        truthy_def proceed_def onDispatch_def requestInterceptor_def mmkv_getString_def Let_def)

lemma all_refreshed_run:
  assumes "distinct is"
    and "\<forall>i\<in>set is. i < length ps \<and> refreshing (ps ! i) \<and> has_headers (ps ! i) \<and> a i \<noteq> []"
  shows "map (\<lambda>c. header_of c ''Authorization'')
           (transport_calls (fst (run (all_refreshed a r is) (w, ps)))) =
         map (\<lambda>c. header_of c ''Authorization'') (transport_calls w) @
           map (\<lambda>i. Some (''Bearer '' @ a i)) is \<and>
         exchange_calls (fst (run (all_refreshed a r is) (w, ps))) = exchange_calls w"
  using assms
proof (induction "is" arbitrary: w ps)
  case Nil
  then show ?case by (simp add: all_refreshed_def)
next
  case (Cons i "is")
  from Cons.prems obtain orig msg h where c: "i < length ps" "ps ! i = Refreshing orig msg"
      "headers orig = Some h" "a i \<noteq> []"
    by (cases "ps ! i") auto
  let ?sent = "orig\<lparr>headers := Some (h(''Authorization'' \<mapsto> ''Bearer '' @ a i))\<rparr>"
  let ?w = "w\<lparr>storage := (storage w)(''refresh_token'' \<mapsto> r i, ''access_token'' \<mapsto> a i),
              transport_calls := transport_calls w @ [?sent]\<rparr>"
  let ?ps = "ps[i := InFlight ?sent]"
  have unf: "run (all_refreshed a r (i # is)) (w, ps) = run (all_refreshed a r is) (?w, ?ps)"
    using step_refreshed [OF c, of "r i" w] by (simp add: all_refreshed_def)
  have rest: "\<forall>j\<in>set is. j < length ?ps \<and> refreshing (?ps ! j) \<and> has_headers (?ps ! j) \<and> a j \<noteq> []"
    using Cons.prems by (auto simp: nth_list_update)
  from Cons.IH [of ?ps ?w] Cons.prems(1) rest show ?case
    unfolding unf by (simp add: header_of_def)
qed

subsection \<open>The claims\<close>

text \<open>
  Claim C1, as stated, fails: the client has no shared refresh in flight. Two calls get
  their 401 before either exchange answers; each posts its own exchange with the same
  refresh token \<open>R0\<close>, and the two replays carry two different access tokens.
\<close>
theorem two_401_two_exchanges:
  "exchange_calls (fst (run two_401_schedule two_calls)) = [''R0'', ''R0''] \<and>
   map authorization_of (transport_calls (fst (run two_401_schedule two_calls)))
     = [Some ''Bearer A0'', Some ''Bearer A0'', Some ''Bearer A1'', Some ''Bearer A2'']"
  by (simp add: machine_defs client_defs authorization_of_def)

text \<open>
  Claim C1, amended. When the calls of a list each get a 401 on their first attempt,
  with a non-empty refresh token stored and before any exchange has answered, one
  exchange is posted per call, each with that stored refresh token. When then each
  exchange succeeds and its call is replayed, one call after the other, no further
  exchange is posted and each replay carries the access token of its own exchange.
\<close>
theorem concurrent_401_one_exchange_each:
  assumes token: "storage w ''refresh_token'' = Some rt" "rt \<noteq> []"
    and calls: "distinct is" "\<forall>i\<in>set is. i < length ps \<and> awaiting_first_reply (ps ! i)"
  shows "exchange_calls (fst (run (all_unauthorized d m is) (w, ps))) =
           exchange_calls w @ replicate (length is) rt \<and>
         ((\<forall>i\<in>set is. has_headers (ps ! i) \<and> a i \<noteq> []) \<longrightarrow>
            exchange_calls (fst (run (all_unauthorized d m is @ all_refreshed a r is) (w, ps))) =
              exchange_calls w @ replicate (length is) rt \<and>
            map (\<lambda>c. header_of c ''Authorization'')
              (drop (length (transport_calls w))
                 (transport_calls (fst (run (all_unauthorized d m is @ all_refreshed a r is) (w, ps))))) =
              map (\<lambda>i. Some (''Bearer '' @ a i)) is)"
proof (intro conjI impI)
  note one = all_unauthorized_run [OF token calls, of d m]
  let ?s = "run (all_unauthorized d m is) (w, ps)"
  show "exchange_calls (fst ?s) = exchange_calls w @ replicate (length is) rt"
    using one by simp
  assume hs: "\<forall>i\<in>set is. has_headers (ps ! i) \<and> a i \<noteq> []"
  have ready: "\<forall>i\<in>set is. i < length (snd ?s) \<and> refreshing (snd ?s ! i) \<and>
      has_headers (snd ?s ! i) \<and> a i \<noteq> []"
    using one calls hs by auto
  note two = all_refreshed_run [OF calls(1) ready, of r "fst ?s"]
  have split: "run (all_unauthorized d m is @ all_refreshed a r is) (w, ps) =
      run (all_refreshed a r is) (fst ?s, snd ?s)"
    by (simp add: run_append)
  show "exchange_calls (fst (run (all_unauthorized d m is @ all_refreshed a r is) (w, ps))) =
      exchange_calls w @ replicate (length is) rt"
    unfolding split using one two by simp
  have "map (\<lambda>c. header_of c ''Authorization'')
      (transport_calls (fst (run (all_unauthorized d m is @ all_refreshed a r is) (w, ps)))) =
      map (\<lambda>c. header_of c ''Authorization'') (transport_calls w) @
        map (\<lambda>i. Some (''Bearer '' @ a i)) is"
    unfolding split using one two by simp
  then have "drop (length (transport_calls w))
      (map (\<lambda>c. header_of c ''Authorization'')
        (transport_calls (fst (run (all_unauthorized d m is @ all_refreshed a r is) (w, ps))))) =
      map (\<lambda>i. Some (''Bearer '' @ a i)) is"
    by simp
  then show "map (\<lambda>c. header_of c ''Authorization'')
      (drop (length (transport_calls w))
         (transport_calls (fst (run (all_unauthorized d m is @ all_refreshed a r is) (w, ps))))) =
      map (\<lambda>i. Some (''Bearer '' @ a i)) is"
    by (simp add: drop_map)
qed

theorem concurrent_401_one_exchange_each_witness:
  "exchange_calls (fst (run (all_unauthorized (\<lambda>i. None) (\<lambda>i. ''Request failed with status code 401'') [0, 1])
      two_in_flight)) = [''R0'', ''R0''] \<and>
   exchange_calls (fst (run (all_unauthorized (\<lambda>i. None) (\<lambda>i. ''Request failed with status code 401'') [0, 1]
      @ all_refreshed fresh_access fresh_refresh [0, 1]) two_in_flight)) = [''R0'', ''R0''] \<and>
   map (\<lambda>c. header_of c ''Authorization'')
     (drop 2 (transport_calls (fst (run
        (all_unauthorized (\<lambda>i. None) (\<lambda>i. ''Request failed with status code 401'') [0, 1]
         @ all_refreshed fresh_access fresh_refresh [0, 1]) two_in_flight))))
     = [Some ''Bearer A1'', Some ''Bearer A2'']"
proof -
  have w: "fst two_in_flight =
      example_world\<lparr>transport_calls :=
        [requestInterceptor (storage example_world) example_config,
         requestInterceptor (storage example_world) (example_config\<lparr>url := ''/products/8''\<rparr>)]\<rparr>"
    and ps: "snd two_in_flight =
        [InFlight (requestInterceptor (storage example_world) example_config),
         InFlight (requestInterceptor (storage example_world)
           (example_config\<lparr>url := ''/products/8''\<rparr>))]"
    by (simp_all add: two_in_flight_def two_calls_def onDispatch_def Let_def example_world_def)
  have token: "storage (fst two_in_flight) ''refresh_token'' = Some ''R0''" "''R0'' \<noteq> []"
    by (simp_all add: w example_world_def)
  have calls: "distinct [0::nat, 1]"
    "\<forall>i\<in>set [0::nat, 1]. i < length (snd two_in_flight) \<and>
       awaiting_first_reply (snd two_in_flight ! i)"
    by (simp_all add: ps example_config_def)
  have hs: "\<forall>i\<in>set [0::nat, 1]. has_headers (snd two_in_flight ! i) \<and> fresh_access i \<noteq> []"
    by (simp add: ps client_defs fresh_access_def)
  have before: "length (transport_calls (fst two_in_flight)) = 2"
    "exchange_calls (fst two_in_flight) = []"
    by (simp_all add: w example_world_def)
  from concurrent_401_one_exchange_each [OF token calls,
      of "\<lambda>i. None" "\<lambda>i. ''Request failed with status code 401''" fresh_access fresh_refresh] hs
  show ?thesis
    by (simp add: before fresh_access_def)
qed

text \<open>
  Claim C2. A call whose first and second attempts are both answered with 401 makes
  exactly these two requests; the first carries \<^verbatim>\<open>_retry\<close> unset and the second
  carries it set; exactly one exchange was posted; the call ends in the logout (both
  tokens deleted, the logout reported last) and is rejected with the message of the
  second 401.
\<close>
theorem apiClient_second_401:
  assumes run: "apiClient net exchange cfg w = (res, w')"
    and trace: "transport_calls w' = transport_calls w @ first # second # rest"
    and first_401: "net first = ErrResponse 401 d1 m1"
    and second_401: "net second = ErrResponse 401 d2 m2"
  shows "rest = [] \<and> \<not> retry first \<and> retry second \<and>
         length (exchange_calls w') = length (exchange_calls w) + 1 \<and>
         res = Rejected m2 \<and>
         storage w' ''access_token'' = None \<and> storage w' ''refresh_token'' = None \<and>
         last (logged w') = logout_entry"
proof -
  let ?sent = "requestInterceptor (storage w) cfg"
  let ?w1 = "w\<lparr>transport_calls := transport_calls w @ [?sent]\<rparr>"
  from apiClient_calls [OF run] trace
  have first: "first = ?sent" and rest: "rest = []" by auto
  have fresh: "\<not> retry cfg"
  proof
    assume "retry cfg"
    from apiClient_retried_calls [OF this run] trace show False by simp
  qed
  obtain tok w2 where r: "refreshTokens exchange ?w1 = (tok, w2)"
    by (cases "refreshTokens exchange ?w1")
  obtain nxt w3 where a: "afterRefresh m1 (?sent\<lparr>retry := True\<rparr>) tok w2 = (nxt, w3)"
    by (cases "afterRefresh m1 (?sent\<lparr>retry := True\<rparr>) tok w2")
  note unfolded = apiClient_first_401 [where net = net and w = w and cfg = cfg
      and exchange = exchange and d = d1 and m = m1, OF first_401 [unfolded first] fresh]
  from refreshTokens_calls [OF r]
  have calls2: "transport_calls w2 = transport_calls w @ [?sent]"
    "exchange_calls w2 =
       exchange_calls w @ (case refreshTokens_begin ?w1 of Inl e \<Rightarrow> [] | Inr rt \<Rightarrow> [rt])"
    by simp_all
  obtain again where nxt: "nxt = Retry again"
  proof (cases nxt)
    case (Settle s)
    with unfolded r a run have "w' = w3" by simp
    with afterRefresh_Settle [OF a [unfolded Settle]] calls2 trace show ?thesis by simp
  qed
  from afterRefresh_Retry [OF a [unfolded nxt]]
  have same: "w3 = w2" and retried: "retry again" and tok: "truthy tok" by simp_all
  from unfolded r a nxt run same have rec: "apiClient net exchange again w2 = (res, w')" by simp
  from apiClient_retried_calls [OF retried rec] calls2 trace
  have second: "second = requestInterceptor (storage w2) again"
    and ex: "exchange_calls w' = exchange_calls w2" by simp_all
  from tok obtain t where "tok = Some t" by (cases tok) (simp_all add: truthy_def)
  with refreshTokens_Some r obtain rt where "refreshTokens_begin ?w1 = Inr rt" by blast
  with calls2 ex have one: "length (exchange_calls w') = length (exchange_calls w) + 1" by simp
  let ?w4 = "w2\<lparr>transport_calls := transport_calls w2 @ [second]\<rparr>"
  have "apiClient net exchange again w2 = (Rejected m2, handleApiError 401 d2 ?w4)"
    using retried second_401 second by (simp add: apiClient_retried Let_def)
  with rec have "res = Rejected m2"
    and "w' = handleLogout (logger_error ''Unauthorized: Please log in again.'' [] ?w4)"
    by (simp_all add: handleApiError_401)
  with rest first fresh second retried one show ?thesis
    by (simp add: handleLogout_effect)
qed

theorem apiClient_second_401_witness:
  "map retry (transport_calls (snd (apiClient always_unauthorized rotating_endpoint
      example_config example_world))) = [False, True] \<and>
   map (\<lambda>c. header_of c ''Authorization'') (transport_calls (snd (apiClient
      always_unauthorized rotating_endpoint example_config example_world)))
     = [Some ''Bearer A0'', Some ''Bearer A1''] \<and>
   exchange_calls (snd (apiClient always_unauthorized rotating_endpoint
      example_config example_world)) = [''R0''] \<and>
   fst (apiClient always_unauthorized rotating_endpoint example_config example_world)
     = Rejected ''Request failed with status code 401'' \<and>
   storage (snd (apiClient always_unauthorized rotating_endpoint
      example_config example_world)) ''refresh_token'' = None \<and>
   last (logged (snd (apiClient always_unauthorized rotating_endpoint
      example_config example_world))) = logout_entry"
proof -
  let ?run = "apiClient always_unauthorized rotating_endpoint example_config example_world"
  let ?first = "example_config\<lparr>headers :=
      Some [''Content-Type'' \<mapsto> ''application/json'', ''Authorization'' \<mapsto> ''Bearer A0'']\<rparr>"
  let ?second = "example_config\<lparr>headers :=
      Some [''Content-Type'' \<mapsto> ''application/json'', ''Authorization'' \<mapsto> ''Bearer A1''],
      retry := True\<rparr>"
  have run: "?run = (fst ?run, snd ?run)" by simp
  have calls: "transport_calls (snd ?run) = [?first, ?second]"
    and ex: "exchange_calls (snd ?run) = [''R0'']"
    by (simp_all add: apiClient.simps client_defs)
  have trace: "transport_calls (snd ?run) =
      transport_calls example_world @ ?first # ?second # []"
    using calls by (simp add: example_world_def)
  have u: "always_unauthorized ?first = ErrResponse 401 None ''Request failed with status code 401''"
    "always_unauthorized ?second = ErrResponse 401 None ''Request failed with status code 401''"
    by (simp_all add: always_unauthorized_def unauthorized_def)
  from apiClient_second_401 [OF run trace u] calls ex show ?thesis
    by (simp add: example_config_def header_of_def)
qed

text \<open>
  Claim C3. A first attempt answered with 401, with a refresh token stored and the
  exchange rejected: \<^verbatim>\<open>refreshTokens\<close> hands \<^verbatim>\<open>null\<close> to the interceptor that awaits
  it, both tokens are deleted, the logout is run, nothing is replayed, and the call is
  rejected with the message of the 401 error.
\<close>
theorem apiClient_refresh_failure:
  assumes run: "apiClient net exchange cfg w = (res, w')"
    and first: "\<not> retry cfg"
    and unauthorized: "net (requestInterceptor (storage w) cfg) = ErrResponse 401 d m"
    and token: "storage w ''refresh_token'' = Some rt" "rt \<noteq> []"
    and failed: "exchange rt = ExchangeFailed em"
  shows "res = Rejected m \<and>
         storage w' ''access_token'' = None \<and> storage w' ''refresh_token'' = None \<and>
         transport_calls w' = transport_calls w @ [requestInterceptor (storage w) cfg] \<and>
         exchange_calls w' = exchange_calls w @ [rt] \<and>
         logged w' = logged w @ [(Error, ''Token Refresh Error:'', em), logout_entry] \<and>
         fst (refreshTokens exchange w) = None"
proof -
  let ?sent = "requestInterceptor (storage w) cfg"
  let ?w1 = "w\<lparr>transport_calls := transport_calls w @ [?sent]\<rparr>"
  let ?w1x = "?w1\<lparr>exchange_calls := exchange_calls w @ [rt]\<rparr>"
  have b: "refreshTokens_begin ?w1 = Inr rt" "refreshTokens_begin w = Inr rt"
    using token by (simp_all add: refreshTokens_begin_cases truthy_def)
  obtain tok w2 where c: "refreshTokens_catch (JsError em) ?w1x = (tok, w2)"
    by (cases "refreshTokens_catch (JsError em) ?w1x")
  have r: "refreshTokens exchange ?w1 = (tok, w2)"
    using b failed c by (simp add: refreshTokens_def refreshTokens_resume_def Let_def)
  obtain nxt w3 where a: "afterRefresh m (?sent\<lparr>retry := True\<rparr>) tok w2 = (nxt, w3)"
    by (cases "afterRefresh m (?sent\<lparr>retry := True\<rparr>) tok w2")
  from catch_then_logout [OF c a] have n: "nxt = Settle (Rejected m)" by simp
  have "apiClient net exchange cfg w = (Rejected m, w3)"
    using apiClient_first_401 [where net = net and w = w and cfg = cfg and exchange = exchange,
        OF unauthorized first] r a n by simp
  with run have "res = Rejected m" "w' = w3" by simp_all
  moreover have "fst (refreshTokens exchange w) = None"
    using b failed
    by (simp add: refreshTokens_def refreshTokens_resume_def refreshTokens_catch_def Let_def)
  ultimately show ?thesis using catch_then_logout [OF c a] by simp
qed

theorem apiClient_refresh_failure_witness:
  "fst (apiClient always_unauthorized (\<lambda>rt. ExchangeFailed ''Network Error'') example_config
          example_world) = Rejected ''Request failed with status code 401'' \<and>
   storage (snd (apiClient always_unauthorized (\<lambda>rt. ExchangeFailed ''Network Error'')
          example_config example_world)) ''access_token'' = None \<and>
   storage (snd (apiClient always_unauthorized (\<lambda>rt. ExchangeFailed ''Network Error'')
          example_config example_world)) ''refresh_token'' = None \<and>
   exchange_calls (snd (apiClient always_unauthorized (\<lambda>rt. ExchangeFailed ''Network Error'')
          example_config example_world)) = [''R0'']"
  using apiClient_refresh_failure
          [of always_unauthorized "\<lambda>rt. ExchangeFailed ''Network Error''" example_config
              example_world
              "fst (apiClient always_unauthorized (\<lambda>rt. ExchangeFailed ''Network Error'')
                 example_config example_world)"
              "snd (apiClient always_unauthorized (\<lambda>rt. ExchangeFailed ''Network Error'')
                 example_config example_world)"
              None "''Request failed with status code 401''" "''R0''" "''Network Error''"]
  by (simp add: example_world_def example_config_def always_unauthorized_def unauthorized_def)

text \<open>
  Claim C4. A 401 answer with no refresh token in the storage: the refresh fails at once
  with \<open>No refresh token available.\<close>, no exchange is posted, the logout is run, and the
  call is rejected after its one request.
\<close>
theorem apiClient_401_without_refresh_token:
  assumes run: "apiClient net exchange cfg w = (res, w')"
    and unauthorized: "net (requestInterceptor (storage w) cfg) = ErrResponse 401 d m"
    and absent: "\<not> truthy (storage w ''refresh_token'')"
  shows "refreshTokens_begin w = Inl (JsError ''No refresh token available.'') \<and>
         res = Rejected m \<and>
         exchange_calls w' = exchange_calls w \<and>
         transport_calls w' = transport_calls w @ [requestInterceptor (storage w) cfg] \<and>
         storage w' ''access_token'' = None \<and> storage w' ''refresh_token'' = None \<and>
         last (logged w') = logout_entry \<and>
         (\<not> retry cfg \<longrightarrow>
            logged w' = logged w @
              [(Error, ''Token Refresh Error:'', ''No refresh token available.''), logout_entry])"
proof (cases "retry cfg")
  case True
  let ?w1 = "w\<lparr>transport_calls := transport_calls w @ [requestInterceptor (storage w) cfg]\<rparr>"
  have "apiClient net exchange cfg w = (Rejected m, handleApiError 401 d ?w1)"
    using True unauthorized by (simp add: apiClient_retried Let_def)
  with run have "res = Rejected m" "w' = handleLogout (logger_error ''Unauthorized: Please log in again.'' [] ?w1)"
    by (simp_all add: handleApiError_401)
  with True absent show ?thesis
    by (simp add: handleLogout_effect refreshTokens_begin_cases logger_error_def)
next
  case False
  let ?sent = "requestInterceptor (storage w) cfg"
  let ?w1 = "w\<lparr>transport_calls := transport_calls w @ [?sent]\<rparr>"
  have b: "refreshTokens_begin ?w1 = Inl (JsError ''No refresh token available.'')"
    "refreshTokens_begin w = Inl (JsError ''No refresh token available.'')"
    using absent by (simp_all add: refreshTokens_begin_cases)
  obtain tok w2 where c: "refreshTokens_catch (JsError ''No refresh token available.'') ?w1 = (tok, w2)"
    by (cases "refreshTokens_catch (JsError ''No refresh token available.'') ?w1")
  have r: "refreshTokens exchange ?w1 = (tok, w2)"
    using b c by (simp add: refreshTokens_def)
  obtain nxt w3 where a: "afterRefresh m (?sent\<lparr>retry := True\<rparr>) tok w2 = (nxt, w3)"
    by (cases "afterRefresh m (?sent\<lparr>retry := True\<rparr>) tok w2")
  note fact = catch_then_logout [OF c a]
  have "apiClient net exchange cfg w = (Rejected m, w3)"
    using apiClient_first_401 [where net = net and w = w and cfg = cfg and exchange = exchange,
        OF unauthorized False] r a fact by simp
  with run have "res = Rejected m" "w' = w3" by simp_all
  then show ?thesis using fact b by simp
qed

theorem apiClient_401_without_refresh_token_witness:
  "fst (apiClient always_unauthorized rotating_endpoint example_config
          (example_world\<lparr>storage := [''access_token'' \<mapsto> ''A0'']\<rparr>))
     = Rejected ''Request failed with status code 401'' \<and>
   exchange_calls (snd (apiClient always_unauthorized rotating_endpoint example_config
          (example_world\<lparr>storage := [''access_token'' \<mapsto> ''A0'']\<rparr>))) = [] \<and>
   logged (snd (apiClient always_unauthorized rotating_endpoint example_config
          (example_world\<lparr>storage := [''access_token'' \<mapsto> ''A0'']\<rparr>))) =
     [(Error, ''Token Refresh Error:'', ''No refresh token available.''), logout_entry]"
  using apiClient_401_without_refresh_token
          [of always_unauthorized rotating_endpoint example_config
              "example_world\<lparr>storage := [''access_token'' \<mapsto> ''A0'']\<rparr>"
              "fst (apiClient always_unauthorized rotating_endpoint example_config
                 (example_world\<lparr>storage := [''access_token'' \<mapsto> ''A0'']\<rparr>))"
              "snd (apiClient always_unauthorized rotating_endpoint example_config
                 (example_world\<lparr>storage := [''access_token'' \<mapsto> ''A0'']\<rparr>))"
              None "''Request failed with status code 401''"]
  by (simp add: example_world_def example_config_def always_unauthorized_def unauthorized_def
        truthy_def)

text \<open>
  Claim C5, as stated, fails where the exchange answers with an access token and no
  refresh token: \<^verbatim>\<open>refreshTokens\<close> writes the \<^verbatim>\<open>refresh_token\<close> field of the answer
  without looking at it, the storage refuses the missing value, and the \<^verbatim>\<open>catch\<close>
  deletes both tokens. The old refresh token is not kept and the new access token is not
  stored.
\<close>
theorem refreshTokens_drops_unrotated_token:
  "storage example_world ''refresh_token'' = Some ''R0'' \<and>
   fst (refreshTokens unrotating_endpoint example_world) = None \<and>
   storage (snd (refreshTokens unrotating_endpoint example_world)) ''refresh_token'' = None \<and>
   storage (snd (refreshTokens unrotating_endpoint example_world)) ''access_token'' = None"
  by (simp add: example_world_def unrotating_endpoint_def refreshTokens_def refreshTokens_begin_def
        refreshTokens_resume_def refreshTokens_catch_def mmkv_getString_def mmkv_set_def
        mmkv_delete_def truthy_def logger_error_def Let_def)

text \<open>
  Claim C5, amended. When the exchange answers with an access token and a refresh token,
  \<^verbatim>\<open>refreshTokens\<close> posts the stored refresh token once, writes both tokens of the
  answer to the storage, changes nothing else and returns the new access token.
\<close>
theorem refreshTokens_writes_both:
  assumes "storage w ''refresh_token'' = Some rt" and "rt \<noteq> []"
    and "exchange rt = ExchangeOk (Some a) (Some r)"
  shows "refreshTokens exchange w =
           (Some a,
            w\<lparr>exchange_calls := exchange_calls w @ [rt],
              storage := (storage w)(''refresh_token'' \<mapsto> r, ''access_token'' \<mapsto> a)\<rparr>)"
  using assms
  by (simp add: refreshTokens_def refreshTokens_begin_cases truthy_def refreshTokens_resume_def
        mmkv_set_def Let_def)

theorem refreshTokens_writes_both_witness:
  "fst (refreshTokens (\<lambda>rt. ExchangeOk (Some ''A1'') (Some ''R1'')) example_world) = Some ''A1'' \<and>
   storage (snd (refreshTokens (\<lambda>rt. ExchangeOk (Some ''A1'') (Some ''R1'')) example_world))
     ''access_token'' = Some ''A1'' \<and>
   storage (snd (refreshTokens (\<lambda>rt. ExchangeOk (Some ''A1'') (Some ''R1'')) example_world))
     ''refresh_token'' = Some ''R1''"
  using refreshTokens_writes_both [of example_world "''R0''"
          "\<lambda>rt. ExchangeOk (Some ''A1'') (Some ''R1'')" "''A1''" "''R1''"]
  by (simp add: example_world_def)

text \<open>
  Claim C6. When the transport gets no response, the call is rejected with the message of
  that error, after this one request: nothing is replayed, no exchange is posted, and the
  storage is as it was.
\<close>
theorem apiClient_no_response:
  assumes "net (requestInterceptor (storage w) cfg) = ErrNoResponse m"
  shows "fst (apiClient net exchange cfg w) = Rejected m \<and>
         storage (snd (apiClient net exchange cfg w)) = storage w \<and>
         exchange_calls (snd (apiClient net exchange cfg w)) = exchange_calls w \<and>
         transport_calls (snd (apiClient net exchange cfg w)) =
           transport_calls w @ [requestInterceptor (storage w) cfg]"
proof -
  have "apiClient net exchange cfg w =
      (Rejected m,
       logger_error ''Network Error: Please check your internet connection.'' []
         (logger_error ''No Response from Server: '' ''[request]''
            (w\<lparr>transport_calls := transport_calls w @ [requestInterceptor (storage w) cfg]\<rparr>)))"
    using assms by (subst apiClient.simps) (simp add: Let_def)
  then show ?thesis by (simp add: logger_error_def)
qed

theorem apiClient_no_response_witness:
  "fst (apiClient (\<lambda>c. ErrNoResponse ''Network Error'') (\<lambda>rt. ExchangeFailed ''unused'')
          example_config example_world) = Rejected ''Network Error'' \<and>
   storage (snd (apiClient (\<lambda>c. ErrNoResponse ''Network Error'') (\<lambda>rt. ExchangeFailed ''unused'')
          example_config example_world)) ''refresh_token'' = Some ''R0'' \<and>
   exchange_calls (snd (apiClient (\<lambda>c. ErrNoResponse ''Network Error'')
          (\<lambda>rt. ExchangeFailed ''unused'') example_config example_world)) = []"
  using apiClient_no_response [of "\<lambda>c. ErrNoResponse ''Network Error''" example_world
          example_config "''Network Error''" "\<lambda>rt. ExchangeFailed ''unused''"]
  by (simp add: example_world_def)




text \<open>
  Claim C8. The exchange is posted outside the client: \<^verbatim>\<open>refreshTokens\<close> never hands a
  request to the client's transport, and it posts at most once. A rejected exchange (a
  401 of the endpoint included) is posted exactly once and ends in \<^verbatim>\<open>null\<close>: it is
  neither replayed nor followed by another refresh. A whole call of the client posts at
  most one exchange, whatever the transport and the endpoint answer.
\<close>
theorem refresh_exchange_bare:
  "transport_calls (snd (refreshTokens exchange w)) = transport_calls w \<and>
   length (exchange_calls (snd (refreshTokens exchange w))) \<le> length (exchange_calls w) + 1 \<and>
   length (exchange_calls (snd (apiClient net exchange cfg w))) \<le> length (exchange_calls w) + 1 \<and>
   (\<forall>rt m. storage w ''refresh_token'' = Some rt \<and> rt \<noteq> [] \<and> exchange rt = ExchangeFailed m \<longrightarrow>
      fst (refreshTokens exchange w) = None \<and>
      exchange_calls (snd (refreshTokens exchange w)) = exchange_calls w @ [rt])"
proof -
  have r: "refreshTokens exchange w = (fst (refreshTokens exchange w), snd (refreshTokens exchange w))"
    by simp
  have a: "apiClient net exchange cfg w =
      (fst (apiClient net exchange cfg w), snd (apiClient net exchange cfg w))"
    by simp
  have "transport_calls (snd (refreshTokens exchange w)) = transport_calls w"
    using refreshTokens_calls [OF r] by simp
  moreover have "length (exchange_calls (snd (refreshTokens exchange w))) \<le> length (exchange_calls w) + 1"
    using refreshTokens_calls [OF r] by (simp split: sum.splits)
  moreover have "length (exchange_calls (snd (apiClient net exchange cfg w))) \<le> length (exchange_calls w) + 1"
    using apiClient_calls [OF a] by blast
  moreover have "\<forall>rt m. storage w ''refresh_token'' = Some rt \<and> rt \<noteq> [] \<and> exchange rt = ExchangeFailed m \<longrightarrow>
      fst (refreshTokens exchange w) = None \<and>
      exchange_calls (snd (refreshTokens exchange w)) = exchange_calls w @ [rt]"
    by (simp add: refreshTokens_def refreshTokens_begin_cases truthy_def refreshTokens_resume_def
          refreshTokens_catch_def logger_error_def Let_def)
  ultimately show ?thesis by blast
qed

theorem refresh_exchange_bare_witness:
  "fst (refreshTokens (\<lambda>rt. ExchangeFailed ''Request failed with status code 401'') example_world)
     = None \<and>
   exchange_calls (snd (refreshTokens (\<lambda>rt. ExchangeFailed ''Request failed with status code 401'')
     example_world)) = [''R0''] \<and>
   transport_calls (snd (refreshTokens (\<lambda>rt. ExchangeFailed ''Request failed with status code 401'')
     example_world)) = []"
  using refresh_exchange_bare [of "\<lambda>rt. ExchangeFailed ''Request failed with status code 401''"
          example_world]
  by (simp add: example_world_def)

text \<open>
  Claim C9. \<^verbatim>\<open>refreshTokens\<close> always returns: every error of its \<^verbatim>\<open>try\<close> block goes
  to the \<^verbatim>\<open>catch\<close>. Whenever it returns \<^verbatim>\<open>null\<close>, both tokens have been deleted from
  the storage; and it returns \<^verbatim>\<open>null\<close> when the refresh token is missing and when the
  exchange is rejected (network error or a status outside 2xx).
\<close>
theorem refreshTokens_total:
  "(fst (refreshTokens exchange w) = None \<longrightarrow>
      storage (snd (refreshTokens exchange w)) ''access_token'' = None \<and>
      storage (snd (refreshTokens exchange w)) ''refresh_token'' = None) \<and>
   (\<not> truthy (storage w ''refresh_token'') \<longrightarrow> fst (refreshTokens exchange w) = None) \<and>
   (\<forall>rt m. storage w ''refresh_token'' = Some rt \<and> exchange rt = ExchangeFailed m \<longrightarrow>
      fst (refreshTokens exchange w) = None)"
proof (intro conjI impI allI)
  assume "fst (refreshTokens exchange w) = None"
  then have "refreshTokens exchange w = (None, snd (refreshTokens exchange w))"
    by (metis prod.collapse)
  from refreshTokens_null [OF this]
  show "storage (snd (refreshTokens exchange w)) ''access_token'' = None"
    and "storage (snd (refreshTokens exchange w)) ''refresh_token'' = None" by simp_all
next
  assume "\<not> truthy (storage w ''refresh_token'')"
  then show "fst (refreshTokens exchange w) = None"
    by (simp add: refreshTokens_def refreshTokens_begin_cases refreshTokens_catch_def)
next
  fix rt m
  assume "storage w ''refresh_token'' = Some rt \<and> exchange rt = ExchangeFailed m"
  then show "fst (refreshTokens exchange w) = None"
    by (simp add: refreshTokens_def refreshTokens_begin_cases refreshTokens_catch_def
          refreshTokens_resume_def Let_def)
qed

theorem refreshTokens_total_witness:
  "fst (refreshTokens (\<lambda>rt. ExchangeFailed ''Request failed with status code 401'') example_world)
     = None \<and>
   storage (snd (refreshTokens (\<lambda>rt. ExchangeFailed ''Request failed with status code 401'')
     example_world)) ''access_token'' = None \<and>
   storage (snd (refreshTokens (\<lambda>rt. ExchangeFailed ''Request failed with status code 401'')
     example_world)) ''refresh_token'' = None \<and>
   fst (refreshTokens (\<lambda>rt. ExchangeOk (Some ''A1'') (Some ''R1''))
          (example_world\<lparr>storage := Map.empty\<rparr>)) = None"
  using refreshTokens_total [of "\<lambda>rt. ExchangeFailed ''Request failed with status code 401''"
          example_world]
        refreshTokens_total [of "\<lambda>rt. ExchangeOk (Some ''A1'') (Some ''R1'')"
          "example_world\<lparr>storage := Map.empty\<rparr>"]
  by (simp add: example_world_def truthy_def)

text \<open>
  Claim C10. With no access token in the storage the request interceptor returns the
  request as it got it, a caller's own Authorization header included. With an access
  token stored, the result differs from the request in its headers only, every header
  other than Authorization has its old value, and (for a non-empty token and a request
  that has headers) Authorization is the bearer value of the stored token.
\<close>
theorem requestInterceptor_frame:
  "(\<not> truthy (st ''access_token'') \<longrightarrow> requestInterceptor st cfg = cfg) \<and>
   (st ''access_token'' = Some tok \<longrightarrow>
      requestInterceptor st cfg = cfg\<lparr>headers := headers (requestInterceptor st cfg)\<rparr> \<and>
      (\<forall>k. k \<noteq> ''Authorization'' \<longrightarrow>
         header_of (requestInterceptor st cfg) k = header_of cfg k) \<and>
      (tok \<noteq> [] \<and> headers cfg \<noteq> None \<longrightarrow>
         header_of (requestInterceptor st cfg) ''Authorization'' = Some (''Bearer '' @ tok)))"
  by (auto simp: requestInterceptor_def mmkv_getString_def truthy_def Let_def header_of_def
           split: option.splits)

theorem requestInterceptor_frame_witness:
  "requestInterceptor Map.empty (example_config\<lparr>headers := Some [''Authorization'' \<mapsto> ''Basic abc'']\<rparr>)
     = example_config\<lparr>headers := Some [''Authorization'' \<mapsto> ''Basic abc'']\<rparr> \<and>
   url (requestInterceptor [''access_token'' \<mapsto> ''A1''] example_config) = ''/products/7'' \<and>
   header_of (requestInterceptor [''access_token'' \<mapsto> ''A1''] example_config) ''Content-Type''
     = Some ''application/json'' \<and>
   header_of (requestInterceptor [''access_token'' \<mapsto> ''A1''] example_config) ''Authorization''
     = Some ''Bearer A1''"
  using requestInterceptor_frame [of Map.empty "example_config\<lparr>headers := Some [''Authorization'' \<mapsto> ''Basic abc'']\<rparr>"]
        requestInterceptor_frame [of "[''access_token'' \<mapsto> ''A1'']" example_config "''A1''"]
  by (simp add: example_config_def requestInterceptor_def mmkv_getString_def truthy_def header_of_def)

end
